theory Spec2Isabelle
  imports Main "HOL-Library.Word" "HOL-Library.Multiset"
begin

section \<open>The hyper runtime: sandbox lifecycle translation (pkg/hyper/hyper.go)\<close>

subsection \<open>Errors, log records and engine calls\<close>

text \<open>
  A Go \<open>error\<close> is a value carrying its message. The \<open>glog\<close> calls of the source are
  kept as log records holding the format string and its arguments, unformatted.
\<close>

datatype error = Error string

datatype arg = S string | I int | E error

datatype 'u event =
    Call_GetVersion
  | Call_CreatePod 'u
  | Call_StartPod string
  | Call_StopPod string
  | Call_RemovePod string
  | Call_GetPodInfo string
  | Call_GetPodList
  | Errorf string "arg list"
  | Warningf string "arg list"

subsection \<open>Data of the engine and of the kubelet runtime API\<close>

text \<open>
  Go maps of strings are partial functions. The creation timestamps are 64-bit signed
  integers on both sides, so the product with \<open>secondToNano\<close> wraps around. The attempt
  counter of the sandbox metadata is an unsigned 32-bit integer.
\<close>

type_synonym labels = "string \<rightharpoonup> string"

record PodStatus =
  status_Phase :: string
  status_PodIP :: "string list"

record PodSpec =
  spec_Labels :: labels

record PodInfo =
  info_PodName :: string
  info_Spec :: PodSpec
  info_Status :: PodStatus
  info_CreatedAt :: "64 word"

record PodListResult =
  pod_PodID :: string
  pod_PodName :: string
  pod_Labels :: labels
  pod_Status :: string
  pod_CreatedAt :: "64 word"

datatype PodSandBoxState = PodSandBoxState_READY | PodSandBoxState_NOTREADY

record PodSandboxMetadata =
  Name :: string
  Uid :: string
  Namespace :: string
  Attempt :: "32 word"

record PodSandboxNetworkStatus =
  Ip :: string

record PodSandboxStatus_t =
  pss_Id :: string
  pss_Metadata :: PodSandboxMetadata
  pss_State :: PodSandBoxState
  pss_Network :: PodSandboxNetworkStatus
  pss_CreatedAt :: "64 word"
  pss_Labels :: labels
  pss_Annotations :: labels

record PodSandbox =
  ps_Id :: string
  ps_Metadata :: PodSandboxMetadata
  ps_Labels :: labels
  ps_State :: PodSandBoxState
  ps_CreatedAt :: "64 word"

record PodSandboxFilter =
  filter_Id :: "string option"
  filter_State :: "PodSandBoxState option"
  filter_LabelSelector :: "labels option"

record RuntimeCondition =
  cond_Type :: string
  cond_Status :: bool
  cond_Reason :: "string option"
  cond_Message :: "string option"

record RuntimeStatus =
  Conditions :: "RuntimeCondition list"

definition RuntimeReady :: string where
  "RuntimeReady = ''RuntimeReady''"

definition NetworkReady :: string where
  "NetworkReady = ''NetworkReady''"

definition secondToNano :: "64 word" where
  "secondToNano = 1000000000"

subsection \<open>The engine client and the package helpers\<close>

text \<open>
  The engine client \<open>h.client\<close> is an arbitrary collaborator: each operation reads and
  updates an engine state \<open>'s\<close> and may fail. \<open>StopPod\<close> returns its code and cause
  together with the error, as the Go signature does.
\<close>

record ('u, 's) Client =
  GetVersion :: "'s \<Rightarrow> (error + string \<times> string) \<times> 's"
  CreatePod :: "'u \<Rightarrow> 's \<Rightarrow> (error + string) \<times> 's"
  StartPod :: "string \<Rightarrow> 's \<Rightarrow> error option \<times> 's"
  StopPod :: "string \<Rightarrow> 's \<Rightarrow> (int \<times> string \<times> error option) \<times> 's"
  RemovePod :: "string \<Rightarrow> 's \<Rightarrow> error option \<times> 's"
  GetPodInfo :: "string \<Rightarrow> 's \<Rightarrow> (error + PodInfo) \<times> 's"
  GetPodList :: "'s \<Rightarrow> (error + PodListResult list) \<times> 's"

text \<open>
  The helper functions that hyper.go calls and that live in other files of the package
  are parameters of the model: \<open>buildUserPod\<close>, \<open>config.String()\<close>,
  \<open>parseSandboxName\<close>, \<open>toPodSandboxState\<close>, \<open>getAnnotationsFromLabels\<close>,
  \<open>getKubeletLabels\<close>, \<open>inMap\<close> and \<open>sortByCreatedAt\<close>.
\<close>

record ('c, 'u) helpers =
  buildUserPod :: "'c \<Rightarrow> error + 'u"
  config_String :: "'c \<Rightarrow> string"
  parseSandboxName :: "string \<Rightarrow> error + (string \<times> string \<times> string \<times> 32 word)"
  toPodSandboxState :: "string \<Rightarrow> PodSandBoxState"
  getAnnotationsFromLabels :: "labels \<Rightarrow> labels"
  getKubeletLabels :: "labels \<Rightarrow> labels"
  inMap :: "labels \<Rightarrow> labels \<Rightarrow> bool"
  sortByCreatedAt :: "PodSandbox list \<Rightarrow> PodSandbox list"

subsection \<open>Status\<close>

definition Status ::
  "('u, 's) Client \<Rightarrow> 's \<Rightarrow> (error + RuntimeStatus) \<times> 'u event list \<times> 's" where
  "Status c s =
     (let runtimeReady = \<lparr>cond_Type = RuntimeReady, cond_Status = True,
                           cond_Reason = None, cond_Message = None\<rparr>;
          networkReady = \<lparr>cond_Type = NetworkReady, cond_Status = True,
                           cond_Reason = None, cond_Message = None\<rparr>
      in case GetVersion c s of
           (Inl (Error msg), s1) \<Rightarrow>
             (Inr \<lparr>Conditions =
                     [runtimeReady\<lparr>cond_Status := False,
                        cond_Reason := Some ''HyperDaemonNotReady'',
                        cond_Message := Some (''hyper: failed to get hyper version: '' @ msg)\<rparr>,
                      networkReady]\<rparr>,
              [Call_GetVersion], s1)
         | (Inr v, s1) \<Rightarrow>
             (Inr \<lparr>Conditions = [runtimeReady, networkReady]\<rparr>, [Call_GetVersion], s1))"

subsection \<open>RunPodSandbox\<close>

definition RunPodSandbox ::
  "('c, 'u) helpers \<Rightarrow> ('u, 's) Client \<Rightarrow> 'c \<Rightarrow> 's \<Rightarrow> (error + string) \<times> 'u event list \<times> 's" where
  "RunPodSandbox h c config s =
     (case buildUserPod h config of
        Inl err \<Rightarrow>
          (Inl err,
           [Errorf ''Build UserPod for sandbox %q failed: %v'' [S (config_String h config), E err]],
           s)
      | Inr userpod \<Rightarrow>
          (case CreatePod c userpod s of
             (Inl err, s1) \<Rightarrow>
               (Inl err,
                [Call_CreatePod userpod,
                 Errorf ''Create pod for sandbox %q failed: %v'' [S (config_String h config), E err]],
                s1)
           | (Inr podID, s1) \<Rightarrow>
               (case StartPod c podID s1 of
                  (Some err, s2) \<Rightarrow>
                    (case RemovePod c podID s2 of
                       (Some removeError, s3) \<Rightarrow>
                         (Inl err,
                          [Call_CreatePod userpod, Call_StartPod podID,
                           Errorf ''Start pod %q failed: %v'' [S podID, E err],
                           Call_RemovePod podID,
                           Warningf ''Remove pod %q failed: %v'' [E removeError]],
                          s3)
                     | (None, s3) \<Rightarrow>
                         (Inl err,
                          [Call_CreatePod userpod, Call_StartPod podID,
                           Errorf ''Start pod %q failed: %v'' [S podID, E err],
                           Call_RemovePod podID],
                          s3))
                | (None, s2) \<Rightarrow>
                    (Inr podID, [Call_CreatePod userpod, Call_StartPod podID], s2))))"

subsection \<open>StopPodSandbox\<close>

definition StopPodSandbox ::
  "('u, 's) Client \<Rightarrow> string \<Rightarrow> 's \<Rightarrow> error option \<times> 'u event list \<times> 's" where
  "StopPodSandbox c podSandboxID s =
     (case StopPod c podSandboxID s of
        ((code, cause, Some err), s1) \<Rightarrow>
          (Some err,
           [Call_StopPod podSandboxID,
            Errorf ''Stop pod %s failed, code: %d, cause: %s, error: %v''
              [S podSandboxID, I code, S cause, E err]],
           s1)
      | ((code, cause, None), s1) \<Rightarrow> (None, [Call_StopPod podSandboxID], s1))"

subsection \<open>PodSandboxStatus\<close>

definition PodSandboxStatus ::
  "('c, 'u) helpers \<Rightarrow> ('u, 's) Client \<Rightarrow> string \<Rightarrow> 's \<Rightarrow>
     (error + PodSandboxStatus_t) \<times> 'u event list \<times> 's" where
  "PodSandboxStatus h c podSandboxID s =
     (case GetPodInfo c podSandboxID s of
        (Inl err, s1) \<Rightarrow>
          (Inl err,
           [Call_GetPodInfo podSandboxID,
            Errorf ''GetPodInfo for %s failed: %v'' [S podSandboxID, E err]],
           s1)
      | (Inr info, s1) \<Rightarrow>
          (let state = toPodSandboxState h (status_Phase (info_Status info));
               podIP = (if length (status_PodIP (info_Status info)) > 0
                        then status_PodIP (info_Status info) ! 0 else '''')
           in case parseSandboxName h (info_PodName info) of
                Inl err \<Rightarrow>
                  (Inl err,
                   [Call_GetPodInfo podSandboxID,
                    Errorf ''ParseSandboxName for %s failed: %v'' [S (info_PodName info), E err]],
                   s1)
              | Inr (podName, podNamespace, podUID, attempt) \<Rightarrow>
                  (let podSandboxMetadata =
                         \<lparr>Name = podName, Uid = podUID, Namespace = podNamespace,
                          Attempt = attempt\<rparr>;
                       annotations = getAnnotationsFromLabels h (spec_Labels (info_Spec info));
                       kubeletLabels = getKubeletLabels h (spec_Labels (info_Spec info));
                       createdAtNano = info_CreatedAt info * secondToNano
                   in (Inr \<lparr>pss_Id = podSandboxID, pss_Metadata = podSandboxMetadata,
                            pss_State = state, pss_Network = \<lparr>Ip = podIP\<rparr>,
                            pss_CreatedAt = createdAtNano, pss_Labels = kubeletLabels,
                            pss_Annotations = annotations\<rparr>,
                       [Call_GetPodInfo podSandboxID], s1))))"

subsection \<open>ListPodSandbox\<close>

text \<open>The three guarded \<open>continue\<close> statements of the loop body.\<close>

definition skipped ::
  "('c, 'u) helpers \<Rightarrow> PodSandboxFilter option \<Rightarrow> PodListResult \<Rightarrow> PodSandBoxState \<Rightarrow> bool" where
  "skipped h fltr pod state =
     (case fltr of
        None \<Rightarrow> False
      | Some f \<Rightarrow>
          (if filter_Id f \<noteq> None \<and> pod_PodID pod \<noteq> the (filter_Id f) then True
           else if filter_State f \<noteq> None \<and> state \<noteq> the (filter_State f) then True
           else if filter_LabelSelector f \<noteq> None
                   \<and> \<not> inMap h (the (filter_LabelSelector f)) (pod_Labels pod) then True
           else False))"

text \<open>
  The loop over the pod list: \<open>items\<close> is the slice built so far. A name that does not
  parse ends the whole call with the error. The engine's list holds references to its
  records, so \<open>&pod.PodID\<close> is the id of the record at hand.
\<close>

fun ListPodSandbox_loop ::
  "('c, 'u) helpers \<Rightarrow> PodSandboxFilter option \<Rightarrow> PodListResult list \<Rightarrow> PodSandbox list \<Rightarrow>
     (error + PodSandbox list) \<times> 'u event list" where
  "ListPodSandbox_loop h fltr [] items = (Inr items, [])"
| "ListPodSandbox_loop h fltr (pod # pods) items =
     (let state = toPodSandboxState h (pod_Status pod)
      in case parseSandboxName h (pod_PodName pod) of
           Inl err \<Rightarrow>
             (Inl err,
              [Errorf ''ParseSandboxName for %s failed: %v'' [S (pod_PodName pod), E err]])
         | Inr (podName, podNamespace, podUID, attempt) \<Rightarrow>
             if skipped h fltr pod state then ListPodSandbox_loop h fltr pods items
             else
               (let podSandboxMetadata =
                      \<lparr>Name = podName, Uid = podUID, Namespace = podNamespace,
                       Attempt = attempt\<rparr>;
                    createdAtNano = pod_CreatedAt pod * secondToNano
                in ListPodSandbox_loop h fltr pods
                     (items @ [\<lparr>ps_Id = pod_PodID pod, ps_Metadata = podSandboxMetadata,
                                ps_Labels = pod_Labels pod, ps_State = state,
                                ps_CreatedAt = createdAtNano\<rparr>])))"

definition ListPodSandbox ::
  "('c, 'u) helpers \<Rightarrow> ('u, 's) Client \<Rightarrow> PodSandboxFilter option \<Rightarrow> 's \<Rightarrow>
     (error + PodSandbox list) \<times> 'u event list \<times> 's" where
  "ListPodSandbox h c fltr s =
     (case GetPodList c s of
        (Inl err, s1) \<Rightarrow>
          (Inl err, [Call_GetPodList, Errorf ''GetPodList failed: %v'' [E err]], s1)
      | (Inr pods, s1) \<Rightarrow>
          (case ListPodSandbox_loop h fltr pods [] of
             (Inl err, evs) \<Rightarrow> (Inl err, Call_GetPodList # evs, s1)
           | (Inr items, evs) \<Rightarrow> (Inr (sortByCreatedAt h items), Call_GetPodList # evs, s1)))"

subsection \<open>The sandbox name codec\<close>

text \<open>
  \<open>buildSandboxName\<close> and \<open>parseSandboxName\<close> are in another file of the package;
  hyper.go calls the second and uses its four results. They are described by the wire
  format: a single string combining name, namespace, uid and attempt (decimal,
  non-negative) with a fixed field separator, which is a parameter here. First the
  pieces: the two error kinds, splitting at the separator, and decimal numerals.
\<close>

definition InvalidNameFormat :: error where
  "InvalidNameFormat = Error ''InvalidNameFormat''"

definition SpecBuildError :: error where
  "SpecBuildError = Error ''SpecBuildError''"

fun split_on :: "char \<Rightarrow> string \<Rightarrow> string list" where
  "split_on sep [] = [[]]"
| "split_on sep (c # cs) =
     (if c = sep then [] # split_on sep cs
      else (case split_on sep cs of [] \<Rightarrow> [[c]] | f # fs \<Rightarrow> (c # f) # fs))"

definition digit_char :: "nat \<Rightarrow> char" where
  "digit_char d = char_of (48 + d)"

definition is_digit :: "char \<Rightarrow> bool" where
  "is_digit c = (48 \<le> (of_char c :: nat) \<and> (of_char c :: nat) \<le> 57)"

definition digit_val :: "char \<Rightarrow> nat" where
  "digit_val c = of_char c - 48"

function show_nat :: "nat \<Rightarrow> string" where
  "show_nat n = (if n < 10 then [digit_char n] else show_nat (n div 10) @ [digit_char (n mod 10)])"
  by pat_completeness auto
termination
  by (relation "measure id") auto

declare show_nat.simps [simp del]

definition digits_value :: "string \<Rightarrow> nat" where
  "digits_value s = foldl (\<lambda>a c. 10 * a + digit_val c) 0 s"

text \<open>
  Modelled from the spec: the attempt field as \<open>parseSandboxName\<close> reads it, the decimal
  numeral of a non-negative integer that fits the 32 bits of the attempt, written as
  the encoder writes it, without sign or leading zeros.
\<close>

definition parse_attempt :: "string \<Rightarrow> 32 word option" where
  "parse_attempt s =
     (if s \<noteq> [] \<and> list_all is_digit s \<and> (s = ''0'' \<or> hd s \<noteq> CHR ''0'')
         \<and> digits_value s < 2 ^ 32
      then Some (of_nat (digits_value s)) else None)"

text \<open>
  Modelled from the spec: the metadata that \<open>buildSandboxName\<close> accepts. A valid field
  value cannot be confused with the separator: valid metadata has no field, as written
  into the token, that contains it.
\<close>

definition valid_metadata :: "char \<Rightarrow> PodSandboxMetadata \<Rightarrow> bool" where
  "valid_metadata sep m =
     (sep \<notin> set (Name m) \<and> sep \<notin> set (Namespace m) \<and> sep \<notin> set (Uid m)
      \<and> sep \<notin> set (show_nat (unat (Attempt m))))"

text \<open>
  Modelled from the spec: \<open>buildSandboxName\<close>, which another file of the package defines.
  The fields are joined by the separator, the attempt in decimal; a field value
  containing the separator is rejected at encode time, the configuration not being
  translatable into an engine-facing specification.
\<close>

definition spec_buildSandboxName :: "char \<Rightarrow> PodSandboxMetadata \<Rightarrow> error + string" where
  "spec_buildSandboxName sep m =
     (if valid_metadata sep m
      then Inr (Name m @ sep # Namespace m @ sep # Uid m @ sep # show_nat (unat (Attempt m)))
      else Inl SpecBuildError)"

text \<open>
  Modelled from the spec: \<open>parseSandboxName\<close>, which another file of the package defines.
  It fails with \<open>InvalidNameFormat\<close> when the token does not contain the expected number
  of fields or when the attempt field is not a non-negative integer; a string that the
  encoder does not produce is not decoded.
\<close>

definition spec_parseSandboxName ::
  "char \<Rightarrow> string \<Rightarrow> error + (string \<times> string \<times> string \<times> 32 word)" where
  "spec_parseSandboxName sep token =
     (case split_on sep token of
        [podName, podNamespace, podUID, a] \<Rightarrow>
          (case parse_attempt a of
             Some attempt \<Rightarrow> Inr (podName, podNamespace, podUID, attempt)
           | None \<Rightarrow> Inl InvalidNameFormat)
      | _ \<Rightarrow> Inl InvalidNameFormat)"

subsection \<open>The phase mapping\<close>

text \<open>
  Modelled from the spec: \<open>toPodSandboxState\<close>, which another file of the package defines. The
  recognised phases and their states are a table (the spec names \<open>running\<close>, which is
  Ready); a phase that is not in the table maps to NotReady.
\<close>

definition spec_toPodSandboxState ::
  "(string \<times> PodSandBoxState) list \<Rightarrow> string \<Rightarrow> PodSandBoxState" where
  "spec_toPodSandboxState table phase =
     (case map_of table phase of
        Some state \<Rightarrow> state
      | None \<Rightarrow> PodSandBoxState_NOTREADY)"

subsection \<open>Labels and annotations\<close>

text \<open>A key carries the reserved annotation marker when the marker is a prefix of it.\<close>

definition has_marker :: "string \<Rightarrow> string \<Rightarrow> bool" where
  "has_marker marker k = (take (length marker) k = marker)"

text \<open>
  Modelled from the spec: \<open>getKubeletLabels\<close>, which another file of the package defines. The keys
  that do not carry the marker are routed to the labels verbatim.
\<close>

definition spec_getKubeletLabels :: "string \<Rightarrow> labels \<Rightarrow> labels" where
  "spec_getKubeletLabels marker m = (\<lambda>k. if has_marker marker k then None else m k)"

text \<open>
  Modelled from the spec: \<open>getAnnotationsFromLabels\<close>, which another file of the package defines.
  The keys carrying the marker are routed to the annotations, marker stripped.
\<close>

definition spec_getAnnotationsFromLabels :: "string \<Rightarrow> labels \<Rightarrow> labels" where
  "spec_getAnnotationsFromLabels marker m = (\<lambda>k. m (marker @ k))"

subsection \<open>Label selectors and ordering\<close>

text \<open>
  Modelled from the spec: \<open>inMap\<close>, which another file of the package defines. Every key/value
  pair of the selector must be present and equal in the record's labels.
\<close>

definition spec_inMap :: "labels \<Rightarrow> labels \<Rightarrow> bool" where
  "spec_inMap sel dest = (\<forall>k \<in> dom sel. dest k = sel k)"

text \<open>The creation timestamp of a list entry, read as the signed number it is.\<close>

definition created_key :: "PodSandbox \<Rightarrow> int" where
  "created_key e = sint (ps_CreatedAt e)"

text \<open>
  Modelled from the spec: \<open>sortByCreatedAt\<close>, which another file of the package defines. A total
  order by creation timestamp, ascending, stable for equal timestamps.
\<close>

definition spec_sortByCreatedAt :: "PodSandbox list \<Rightarrow> PodSandbox list" where
  "spec_sortByCreatedAt items = sort_key created_key items"

definition spec_helpers ::
  "char \<Rightarrow> string \<Rightarrow> (string \<times> PodSandBoxState) list \<Rightarrow> ('c \<Rightarrow> error + 'u) \<Rightarrow>
   ('c \<Rightarrow> string) \<Rightarrow> ('c, 'u) helpers" where
  "spec_helpers sep marker table build describe =
     \<lparr>buildUserPod = build,
      config_String = describe,
      parseSandboxName = spec_parseSandboxName sep,
      toPodSandboxState = spec_toPodSandboxState table,
      getAnnotationsFromLabels = spec_getAnnotationsFromLabels marker,
      getKubeletLabels = spec_getKubeletLabels marker,
      inMap = spec_inMap,
      sortByCreatedAt = spec_sortByCreatedAt\<rparr>"

subsection \<open>Notions used by the properties\<close>

text \<open>The engine calls among the recorded events, in order.\<close>

fun is_call :: "'u event \<Rightarrow> bool" where
  "is_call (Errorf fmt args) = False"
| "is_call (Warningf fmt args) = False"
| "is_call ev = True"

definition calls :: "'u event list \<Rightarrow> 'u event list" where
  "calls evs = filter is_call evs"

text \<open>The listing predicate as the filter clauses read: every clause present must hold.\<close>

definition matches ::
  "('c, 'u) helpers \<Rightarrow> PodSandboxFilter option \<Rightarrow> PodListResult \<Rightarrow> bool" where
  "matches h fltr pod =
     (case fltr of
        None \<Rightarrow> True
      | Some f \<Rightarrow>
          (case filter_Id f of None \<Rightarrow> True | Some i \<Rightarrow> pod_PodID pod = i)
          \<and> (case filter_State f of
                None \<Rightarrow> True
              | Some st \<Rightarrow> toPodSandboxState h (pod_Status pod) = st)
          \<and> (case filter_LabelSelector f of
                None \<Rightarrow> True
              | Some sel \<Rightarrow> (\<forall>k v. sel k = Some v \<longrightarrow> pod_Labels pod k = Some v)))"

text \<open>The list entry built from one engine record, when its name decodes.\<close>

definition sandbox_of :: "('c, 'u) helpers \<Rightarrow> PodListResult \<Rightarrow> PodSandbox option" where
  "sandbox_of h pod =
     (case parseSandboxName h (pod_PodName pod) of
        Inl err \<Rightarrow> None
      | Inr (podName, podNamespace, podUID, attempt) \<Rightarrow>
          Some \<lparr>ps_Id = pod_PodID pod,
                ps_Metadata = \<lparr>Name = podName, Uid = podUID, Namespace = podNamespace,
                               Attempt = attempt\<rparr>,
                ps_Labels = pod_Labels pod,
                ps_State = toPodSandboxState h (pod_Status pod),
                ps_CreatedAt = pod_CreatedAt pod * secondToNano\<rparr>)"

text \<open>Timestamps in seconds whose nanosecond value fits 64 signed bits.\<close>

definition fits_nanos :: "64 word \<Rightarrow> bool" where
  "fits_nanos t = (- 9223372036 \<le> sint t \<and> sint t \<le> 9223372036)"

text \<open>An engine client that answers every call with a fixed reply, for concrete runs.\<close>

definition reply_Client ::
  "(error + string \<times> string) \<Rightarrow> (error + string) \<Rightarrow> error option \<Rightarrow>
   (int \<times> string \<times> error option) \<Rightarrow> error option \<Rightarrow> (error + PodInfo) \<Rightarrow>
   (error + PodListResult list) \<Rightarrow> ('u, 's) Client" where
  "reply_Client version created started stopped removed info pods =
     \<lparr>GetVersion = (\<lambda>s. (version, s)),
      CreatePod = (\<lambda>userpod s. (created, s)),
      StartPod = (\<lambda>podID s. (started, s)),
      StopPod = (\<lambda>podID s. (stopped, s)),
      RemovePod = (\<lambda>podID s. (removed, s)),
      GetPodInfo = (\<lambda>podID s. (info, s)),
      GetPodList = (\<lambda>s. (pods, s))\<rparr>"

subsection \<open>Concrete engines and records for the example runs\<close>

definition example_helpers :: "(string, string) helpers" where
  "example_helpers =
     spec_helpers CHR ''_'' ''a.'' [(''running'', PodSandBoxState_READY)] Inr (\<lambda>config. config)"

definition example_engine ::
  "(error + PodInfo) \<Rightarrow> (error + PodListResult list) \<Rightarrow> (string, unit) Client" where
  "example_engine info pods =
     reply_Client (Inr (''0.6.0'', ''1.0'')) (Inr ''pod1'') None (0, [], None) None info pods"

definition example_info :: "64 word \<Rightarrow> PodInfo" where
  "example_info t =
     \<lparr>info_PodName = ''web_default_uid1_0'',
      info_Spec = \<lparr>spec_Labels = [''app'' \<mapsto> ''web'', ''a.note'' \<mapsto> ''hi'']\<rparr>,
      info_Status = \<lparr>status_Phase = ''running'', status_PodIP = [''10.0.0.5'']\<rparr>,
      info_CreatedAt = t\<rparr>"

definition example_pod ::
  "string \<Rightarrow> string \<Rightarrow> string \<Rightarrow> string \<Rightarrow> 64 word \<Rightarrow> PodListResult" where
  "example_pod podID name app phase t =
     \<lparr>pod_PodID = podID, pod_PodName = name, pod_Labels = [''app'' \<mapsto> app],
      pod_Status = phase, pod_CreatedAt = t\<rparr>"

definition example_pods :: "PodListResult list" where
  "example_pods =
     [example_pod ''a'' ''web_default_u1_0'' ''web'' ''running'' 30,
      example_pod ''b'' ''db_default_u2_0'' ''db'' ''running'' 10,
      example_pod ''c'' ''web_default_u3_1'' ''web'' ''pending'' 20,
      example_pod ''d'' ''job_default_u4_0'' ''web'' ''running'' 10]"

section \<open>Facts about the name codec\<close>

lemma split_on_not_Nil: "split_on sep xs \<noteq> []"
  by (induction xs) (auto split: list.splits)

lemma split_on_no_sep: "sep \<notin> set xs \<Longrightarrow> split_on sep xs = [xs]"
  by (induction xs) auto

lemma split_on_append:
  "sep \<notin> set xs \<Longrightarrow> split_on sep (xs @ sep # ys) = xs # split_on sep ys"
  by (induction xs) auto

lemma split_on_fields_no_sep: "f \<in> set (split_on sep t) \<Longrightarrow> sep \<notin> set f"
  by (induction t arbitrary: f) (auto split: if_splits list.splits)

lemma concat_split_on: "concat (map (\<lambda>f. sep # f) (split_on sep t)) = sep # t"
  by (induction t) (auto split: list.splits)

lemma split_on_four:
  assumes "split_on sep t = [a, b, c, d]"
  shows "t = a @ sep # b @ sep # c @ sep # d"
  using concat_split_on [of sep t] by (simp add: assms)

lemma digit_val_digit_char: "d < 10 \<Longrightarrow> digit_val (digit_char d) = d"
  by (simp add: digit_val_def digit_char_def)

lemma is_digit_digit_char: "d < 10 \<Longrightarrow> is_digit (digit_char d)"
  by (simp add: is_digit_def digit_char_def)

lemma digit_char_digit_val: "is_digit c \<Longrightarrow> digit_char (digit_val c) = c"
  by (simp add: is_digit_def digit_char_def digit_val_def)

lemma digit_val_less: "is_digit c \<Longrightarrow> digit_val c < 10"
  by (auto simp: is_digit_def digit_val_def)

lemma digit_val_zero: "is_digit c \<Longrightarrow> digit_val c = 0 \<Longrightarrow> c = CHR ''0''"
proof -
  assume "is_digit c" and "digit_val c = 0"
  then have "of_char c = (48 :: nat)" by (auto simp: is_digit_def digit_val_def)
  moreover have "of_char CHR ''0'' = (48 :: nat)" by simp
  ultimately have "(of_char c :: nat) = of_char CHR ''0''" by simp
  then show ?thesis by (simp only: of_char_eq_iff)
qed

lemma show_nat_not_Nil: "show_nat n \<noteq> []"
  by (subst show_nat.simps) simp

lemma show_nat_digits: "list_all is_digit (show_nat n)"
proof (induction n rule: show_nat.induct)
  case (1 n)
  show ?case
  proof (cases "n < 10")
    case True
    then show ?thesis by (subst show_nat.simps) (simp add: is_digit_digit_char)
  next
    case False
    with 1 show ?thesis by (subst show_nat.simps) (simp add: is_digit_digit_char)
  qed
qed

lemma digits_value_snoc: "digits_value (xs @ [c]) = 10 * digits_value xs + digit_val c"
  by (simp add: digits_value_def)

lemma digits_value_show_nat: "digits_value (show_nat n) = n"
proof (induction n rule: show_nat.induct)
  case (1 n)
  show ?case
  proof (cases "n < 10")
    case True
    then show ?thesis
      by (subst show_nat.simps) (simp add: digits_value_def digit_val_digit_char)
  next
    case False
    with 1 show ?thesis
      by (subst show_nat.simps) (simp add: digits_value_snoc digit_val_digit_char)
  qed
qed

lemma hd_show_nat: "0 < n \<Longrightarrow> digit_val (hd (show_nat n)) \<noteq> 0"
proof (induction n rule: show_nat.induct)
  case (1 n)
  show ?case
  proof (cases "n < 10")
    case True
    with 1(2) show ?thesis by (subst show_nat.simps) (simp add: digit_val_digit_char)
  next
    case False
    then have "0 < n div 10" by simp
    with 1(1) False have "digit_val (hd (show_nat (n div 10))) \<noteq> 0" by simp
    with False show ?thesis
      by (subst show_nat.simps) (simp add: show_nat_not_Nil)
  qed
qed

lemma show_nat_canonical: "show_nat n = ''0'' \<or> hd (show_nat n) \<noteq> CHR ''0''"
proof (cases "n = 0")
  case True
  have "show_nat 0 = ''0''" by code_simp
  with True show ?thesis by simp
next
  case False
  then have "digit_val (hd (show_nat n)) \<noteq> 0" by (simp add: hd_show_nat)
  then show ?thesis by (auto simp: digit_val_def)
qed

lemma parse_attempt_show_nat: "parse_attempt (show_nat (unat a)) = Some a"
proof -
  have "unat a < 2 ^ 32" using unsigned_less [of a] by simp
  then show ?thesis
    using show_nat_canonical [of "unat a"]
    by (auto simp: parse_attempt_def show_nat_not_Nil show_nat_digits digits_value_show_nat)
qed

lemma digits_value_pos:
  "xs \<noteq> [] \<Longrightarrow> list_all is_digit xs \<Longrightarrow> hd xs \<noteq> CHR ''0'' \<Longrightarrow> 0 < digits_value xs"
proof (induction xs rule: rev_induct)
  case Nil
  then show ?case by simp
next
  case (snoc c xs)
  show ?case
  proof (cases "xs = []")
    case True
    with snoc.prems digit_val_zero [of c] show ?thesis
      by (auto simp: digits_value_def)
  next
    case False
    with snoc have "0 < digits_value xs" by simp
    then show ?thesis by (simp add: digits_value_snoc)
  qed
qed

lemma show_nat_digits_value:
  "xs \<noteq> [] \<Longrightarrow> list_all is_digit xs \<Longrightarrow> xs = ''0'' \<or> hd xs \<noteq> CHR ''0'' \<Longrightarrow>
     show_nat (digits_value xs) = xs"
proof (induction xs rule: rev_induct)
  case Nil
  then show ?case by simp
next
  case (snoc c xs)
  from snoc.prems have c: "is_digit c" by simp
  show ?case
  proof (cases "xs = []")
    case True
    with c show ?thesis
      by (subst show_nat.simps)
         (simp add: digits_value_def digit_val_less digit_char_digit_val)
  next
    case False
    with snoc.prems have h: "hd xs \<noteq> CHR ''0''" and d: "list_all is_digit xs" by auto
    from digits_value_pos [OF False d h] have p: "0 < digits_value xs" .
    from snoc.IH [OF False d] h have ih: "show_nat (digits_value xs) = xs" by simp
    have v: "digits_value (xs @ [c]) = 10 * digits_value xs + digit_val c"
      by (rule digits_value_snoc)
    from p digit_val_less [OF c] have
      "\<not> digits_value (xs @ [c]) < 10"
      "digits_value (xs @ [c]) div 10 = digits_value xs"
      "digits_value (xs @ [c]) mod 10 = digit_val c"
      unfolding v by simp_all
    then show ?thesis
      by (subst show_nat.simps) (simp add: ih digit_char_digit_val c)
  qed
qed

lemma show_nat_parse_attempt:
  assumes "parse_attempt d = Some a"
  shows "show_nat (unat a) = d"
proof -
  from assms have d: "d \<noteq> []" "list_all is_digit d" "d = ''0'' \<or> hd d \<noteq> CHR ''0''"
    "digits_value d < 2 ^ 32" and a: "a = of_nat (digits_value d)"
    by (auto simp: parse_attempt_def split: if_splits)
  from d(4) have "unat a = digits_value d"
    unfolding a by (simp add: unat_of_nat)
  with show_nat_digits_value [OF d(1,2,3)] show ?thesis by simp
qed

lemma build_valid:
  "valid_metadata sep m \<Longrightarrow>
     split_on sep (Name m @ sep # Namespace m @ sep # Uid m @ sep # show_nat (unat (Attempt m)))
       = [Name m, Namespace m, Uid m, show_nat (unat (Attempt m))]"
  by (simp add: valid_metadata_def split_on_append split_on_no_sep)

lemma parse_build:
  assumes "spec_buildSandboxName sep m = Inr token"
  shows "spec_parseSandboxName sep token = Inr (Name m, Namespace m, Uid m, Attempt m)"
proof -
  from assms have v: "valid_metadata sep m"
    and t: "token = Name m @ sep # Namespace m @ sep # Uid m @ sep # show_nat (unat (Attempt m))"
    by (auto simp: spec_buildSandboxName_def split: if_splits)
  show ?thesis
    unfolding t by (simp add: spec_parseSandboxName_def build_valid [OF v] parse_attempt_show_nat)
qed

lemma build_parse:
  assumes "spec_parseSandboxName sep token = Inr (n, ns, u, a)"
  shows "spec_buildSandboxName sep \<lparr>Name = n, Uid = u, Namespace = ns, Attempt = a\<rparr> = Inr token"
proof -
  from assms obtain d where s: "split_on sep token = [n, ns, u, d]"
    and p: "parse_attempt d = Some a"
    by (auto simp: spec_parseSandboxName_def split: list.splits option.splits)
  from split_on_fields_no_sep [of _ sep token] s
  have "sep \<notin> set n" "sep \<notin> set ns" "sep \<notin> set u" "sep \<notin> set d" by simp_all
  with show_nat_parse_attempt [OF p] split_on_four [OF s] show ?thesis
    by (simp add: spec_buildSandboxName_def valid_metadata_def)
qed

lemma parse_error: "isl (spec_parseSandboxName sep token) \<Longrightarrow>
    spec_parseSandboxName sep token = Inl InvalidNameFormat"
  by (auto simp: spec_parseSandboxName_def split: list.splits option.splits)

lemma parse_wrong_count:
  "length (split_on sep token) \<noteq> 4 \<Longrightarrow> spec_parseSandboxName sep token = Inl InvalidNameFormat"
  by (auto simp: spec_parseSandboxName_def split: list.splits)

lemma parse_bad_attempt:
  "\<not> list_all is_digit (last (split_on sep token)) \<Longrightarrow>
     spec_parseSandboxName sep token = Inl InvalidNameFormat"
  by (auto simp: spec_parseSandboxName_def parse_attempt_def split: list.splits option.splits)

section \<open>Facts about the status and list operations\<close>

lemma PodSandboxStatus_Inr:
  assumes "fst (GetPodInfo c podSandboxID s) = Inr info"
    and "parseSandboxName h (info_PodName info) = Inr (n, ns, u, a)"
  shows "fst (PodSandboxStatus h c podSandboxID s) =
           Inr \<lparr>pss_Id = podSandboxID,
                pss_Metadata = \<lparr>Name = n, Uid = u, Namespace = ns, Attempt = a\<rparr>,
                pss_State = toPodSandboxState h (status_Phase (info_Status info)),
                pss_Network =
                  \<lparr>Ip = (if length (status_PodIP (info_Status info)) > 0
                          then status_PodIP (info_Status info) ! 0 else [])\<rparr>,
                pss_CreatedAt = info_CreatedAt info * secondToNano,
                pss_Labels = getKubeletLabels h (spec_Labels (info_Spec info)),
                pss_Annotations = getAnnotationsFromLabels h (spec_Labels (info_Spec info))\<rparr>"
  using assms
  by (cases "GetPodInfo c podSandboxID s") (simp add: PodSandboxStatus_def Let_def)

lemma PodSandboxStatus_Inl:
  assumes "fst (GetPodInfo c podSandboxID s) = Inr info"
    and "parseSandboxName h (info_PodName info) = Inl e"
  shows "fst (PodSandboxStatus h c podSandboxID s) = Inl e"
  using assms
  by (cases "GetPodInfo c podSandboxID s") (simp add: PodSandboxStatus_def Let_def)

lemma PodSandboxStatus_cases:
  assumes "fst (PodSandboxStatus h c podSandboxID s) = Inr st"
  shows "\<exists>info n ns u a. fst (GetPodInfo c podSandboxID s) = Inr info
           \<and> parseSandboxName h (info_PodName info) = Inr (n, ns, u, a)"
  using assms
  by (cases "GetPodInfo c podSandboxID s")
     (auto simp: PodSandboxStatus_def Let_def split: sum.splits)

lemma loop_parses:
  "fst (ListPodSandbox_loop h fltr pods items) = Inr r \<Longrightarrow>
     \<forall>pod \<in> set pods. \<not> isl (parseSandboxName h (pod_PodName pod))"
  by (induction pods arbitrary: items) (auto simp: Let_def split: sum.splits if_splits)

lemma loop_items:
  "\<forall>pod \<in> set pods. \<not> isl (parseSandboxName h (pod_PodName pod)) \<Longrightarrow>
     \<exists>new. ListPodSandbox_loop h fltr pods items = (Inr (items @ new), [])
       \<and> map Some new =
           map (sandbox_of h)
             (filter (\<lambda>p. \<not> skipped h fltr p (toPodSandboxState h (pod_Status p))) pods)"
proof (induction pods arbitrary: items)
  case Nil
  then show ?case by simp
next
  case (Cons pod pods)
  from Cons.prems obtain n ns u a where
    p: "parseSandboxName h (pod_PodName pod) = Inr (n, ns, u, a)"
    by (cases "parseSandboxName h (pod_PodName pod)") auto
  from Cons.prems have rest: "\<forall>q \<in> set pods. \<not> isl (parseSandboxName h (pod_PodName q))"
    by simp
  show ?case
  proof (cases "skipped h fltr pod (toPodSandboxState h (pod_Status pod))")
    case True
    with p Cons.IH [OF rest, of items] show ?thesis by (simp add: Let_def)
  next
    case False
    let ?e = "\<lparr>ps_Id = pod_PodID pod,
                ps_Metadata = \<lparr>Name = n, Uid = u, Namespace = ns, Attempt = a\<rparr>,
                ps_Labels = pod_Labels pod,
                ps_State = toPodSandboxState h (pod_Status pod),
                ps_CreatedAt = pod_CreatedAt pod * secondToNano\<rparr>"
    from Cons.IH [OF rest, of "items @ [?e]"] obtain new where
      new: "ListPodSandbox_loop h fltr pods (items @ [?e]) = (Inr ((items @ [?e]) @ new), [])"
        "map Some new =
           map (sandbox_of h)
             (filter (\<lambda>p. \<not> skipped h fltr p (toPodSandboxState h (pod_Status p))) pods)"
      by blast
    have "sandbox_of h pod = Some ?e" by (simp add: sandbox_of_def p)
    with new p False show ?thesis
      by (intro exI [of _ "?e # new"]) (simp add: Let_def)
  qed
qed

lemma loop_result:
  assumes "fst (ListPodSandbox_loop h fltr pods []) = Inr items"
  shows "map Some items =
           map (sandbox_of h)
             (filter (\<lambda>p. \<not> skipped h fltr p (toPodSandboxState h (pod_Status p))) pods)"
proof -
  from loop_parses [OF assms] loop_items [of pods h fltr "[]"] obtain new where
    "ListPodSandbox_loop h fltr pods [] = (Inr new, [])"
    "map Some new =
       map (sandbox_of h)
         (filter (\<lambda>p. \<not> skipped h fltr p (toPodSandboxState h (pod_Status p))) pods)"
    by auto
  with assms show ?thesis by simp
qed

lemma loop_entry_pod:
  assumes "fst (ListPodSandbox_loop h fltr pods []) = Inr items" and "e \<in> set items"
  shows "\<exists>pod \<in> set pods. sandbox_of h pod = Some e"
proof -
  from assms(2) have "Some e \<in> set (map Some items)" by simp
  then show ?thesis unfolding loop_result [OF assms(1)] by auto
qed

lemma ListPodSandbox_Inr:
  assumes "fst (ListPodSandbox h c fltr s) = Inr result"
  shows "\<exists>pods items. fst (GetPodList c s) = Inr pods
           \<and> fst (ListPodSandbox_loop h fltr pods []) = Inr items
           \<and> result = sortByCreatedAt h items"
  using assms
  by (cases "GetPodList c s")
     (auto simp: ListPodSandbox_def split: sum.splits prod.splits)

lemma ListPodSandbox_ok:
  assumes "fst (GetPodList c s) = Inr pods"
    and "fst (ListPodSandbox_loop h fltr pods []) = Inr items"
  shows "fst (ListPodSandbox h c fltr s) = Inr (sortByCreatedAt h items)"
  using assms
  by (cases "GetPodList c s"; cases "ListPodSandbox_loop h fltr pods []")
     (auto simp: ListPodSandbox_def)

lemma spec_inMap_iff:
  "spec_inMap sel dest = (\<forall>k v. sel k = Some v \<longrightarrow> dest k = Some v)"
  unfolding spec_inMap_def by (metis domI domIff not_Some_eq)

lemma skipped_matches:
  "inMap h = spec_inMap \<Longrightarrow>
     skipped h fltr pod (toPodSandboxState h (pod_Status pod)) = (\<not> matches h fltr pod)"
  by (cases fltr) (auto simp: skipped_def matches_def spec_inMap_iff split: option.splits)

lemma sandbox_of_CreatedAt:
  "sandbox_of h pod = Some e \<Longrightarrow> ps_CreatedAt e = pod_CreatedAt pod * 1000000000"
  by (auto simp: sandbox_of_def secondToNano_def split: sum.splits)

lemma sandbox_of_matches:
  assumes "sandbox_of h p = Some e" and "sandbox_of h q = Some e"
  shows "matches h fltr p = matches h fltr q"
proof -
  from assms have "pod_PodID p = pod_PodID q" "pod_Labels p = pod_Labels q"
    "toPodSandboxState h (pod_Status p) = toPodSandboxState h (pod_Status q)"
    by (auto simp: sandbox_of_def split: sum.splits)
  then show ?thesis by (simp add: matches_def split: option.splits)
qed

lemma sint_nanos:
  "fits_nanos t \<Longrightarrow> sint (t * secondToNano) = sint t * 1000000000"
proof -
  assume "fits_nanos t"
  then have r: "- 9223372036 \<le> sint t" "sint t \<le> 9223372036" by (simp_all add: fits_nanos_def)
  have "sint (t * secondToNano) = signed_take_bit 63 (sint t * 1000000000)"
    by (simp add: secondToNano_def sint_word_ariths)
  also have "\<dots> = sint t * 1000000000"
    using r by (intro signed_take_bit_int_eq_self) simp_all
  finally show ?thesis .
qed

section \<open>The example runs evaluated\<close>

lemmas example_defs =
  example_helpers_def example_engine_def example_info_def example_pod_def example_pods_def
  spec_helpers_def reply_Client_def

lemma parse_example [simp]:
  "spec_parseSandboxName CHR ''_'' ''web_default_u1_0'' = Inr (''web'', ''default'', ''u1'', 0)"
  "spec_parseSandboxName CHR ''_'' ''db_default_u2_0'' = Inr (''db'', ''default'', ''u2'', 0)"
  "spec_parseSandboxName CHR ''_'' ''web_default_u3_1'' = Inr (''web'', ''default'', ''u3'', 1)"
  "spec_parseSandboxName CHR ''_'' ''job_default_u4_0'' = Inr (''job'', ''default'', ''u4'', 0)"
  "spec_parseSandboxName CHR ''_'' ''web_default_uid1_0'' = Inr (''web'', ''default'', ''uid1'', 0)"
  "spec_parseSandboxName CHR ''_'' ''garbage'' = Inl InvalidNameFormat"
  by (simp_all add: spec_parseSandboxName_def parse_attempt_def digits_value_def is_digit_def
        digit_val_def)

lemma example_status:
  "fst (PodSandboxStatus example_helpers
          (example_engine (Inr (example_info t)) (Inl (Error ''none''))) ''pod1'' ())
     = Inr \<lparr>pss_Id = ''pod1'',
            pss_Metadata = \<lparr>Name = ''web'', Uid = ''uid1'', Namespace = ''default'', Attempt = 0\<rparr>,
            pss_State = PodSandBoxState_READY,
            pss_Network = \<lparr>Ip = ''10.0.0.5''\<rparr>,
            pss_CreatedAt = t * secondToNano,
            pss_Labels = spec_getKubeletLabels ''a.'' [''app'' \<mapsto> ''web'', ''a.note'' \<mapsto> ''hi''],
            pss_Annotations =
              spec_getAnnotationsFromLabels ''a.'' [''app'' \<mapsto> ''web'', ''a.note'' \<mapsto> ''hi'']\<rparr>"
  by (simp add: PodSandboxStatus_def example_defs spec_toPodSandboxState_def)

lemma example_list:
  "fst (GetPodList (example_engine (Inl (Error ''none'')) (Inr example_pods)) ())
     = Inr example_pods"
  "\<forall>pod \<in> set example_pods. \<not> isl (parseSandboxName example_helpers (pod_PodName pod))"
  "inMap example_helpers = spec_inMap"
  "sortByCreatedAt example_helpers = spec_sortByCreatedAt"
  "\<forall>xs. set (sortByCreatedAt example_helpers xs) = set xs"
  by (simp_all add: example_defs spec_sortByCreatedAt_def)

section \<open>The properties\<close>

subsection \<open>C1: the sandbox name round trip\<close>

text \<open>
  C1. For every valid metadata, that is one whose name, namespace, uid and attempt
  numeral are free of the separator, the encoder yields a token and decoding that token
  gives the metadata back exactly. Decoding succeeds only on tokens the encoder
  produces, from exactly the metadata decoded: a token that no metadata encodes to
  fails with \<open>InvalidNameFormat\<close>, in particular a token that does not have four fields
  and a token whose attempt field is not numeric. \<open>PodSandboxStatus\<close> reports the
  metadata of an encoded pod name and fails with that error when the name does not
  decode.
\<close>

theorem sandbox_name_roundtrip:
  "(valid_metadata sep m \<longrightarrow>
      (\<exists>token. spec_buildSandboxName sep m = Inr token
         \<and> spec_parseSandboxName sep token = Inr (Name m, Namespace m, Uid m, Attempt m)))
   \<and> (\<forall>n ns u a. spec_parseSandboxName sep token = Inr (n, ns, u, a) \<longrightarrow>
        spec_buildSandboxName sep \<lparr>Name = n, Uid = u, Namespace = ns, Attempt = a\<rparr>
          = Inr token)
   \<and> ((\<forall>m'. spec_buildSandboxName sep m' \<noteq> Inr token) \<longrightarrow>
        spec_parseSandboxName sep token = Inl InvalidNameFormat)
   \<and> (length (split_on sep token) \<noteq> 4 \<longrightarrow>
        spec_parseSandboxName sep token = Inl InvalidNameFormat)
   \<and> (\<not> list_all is_digit (last (split_on sep token)) \<longrightarrow>
        spec_parseSandboxName sep token = Inl InvalidNameFormat)
   \<and> (\<forall>info. parseSandboxName h = spec_parseSandboxName sep
        \<and> fst (GetPodInfo c podSandboxID s) = Inr info \<longrightarrow>
          (spec_buildSandboxName sep m = Inr (info_PodName info) \<longrightarrow>
             (\<exists>st. fst (PodSandboxStatus h c podSandboxID s) = Inr st \<and> pss_Metadata st = m))
          \<and> (isl (spec_parseSandboxName sep (info_PodName info)) \<longrightarrow>
               fst (PodSandboxStatus h c podSandboxID s) = Inl InvalidNameFormat))"
proof (intro conjI allI impI)
  assume "valid_metadata sep m"
  then have "spec_buildSandboxName sep m =
      Inr (Name m @ sep # Namespace m @ sep # Uid m @ sep # show_nat (unat (Attempt m)))"
    by (simp add: spec_buildSandboxName_def)
  with parse_build [OF this]
  show "\<exists>token. spec_buildSandboxName sep m = Inr token
         \<and> spec_parseSandboxName sep token = Inr (Name m, Namespace m, Uid m, Attempt m)"
    by blast
next
  fix n ns u a
  assume "spec_parseSandboxName sep token = Inr (n, ns, u, a)"
  then show "spec_buildSandboxName sep \<lparr>Name = n, Uid = u, Namespace = ns, Attempt = a\<rparr>
          = Inr token"
    by (rule build_parse)
next
  assume none: "\<forall>m'. spec_buildSandboxName sep m' \<noteq> Inr token"
  show "spec_parseSandboxName sep token = Inl InvalidNameFormat"
  proof (cases "spec_parseSandboxName sep token")
    case (Inl e)
    then show ?thesis using parse_error [of sep token] by simp
  next
    case (Inr r)
    obtain n ns u a where "r = (n, ns, u, a)" by (cases r) auto
    with Inr build_parse [of sep token n ns u a] none show ?thesis by blast
  qed
next
  assume "length (split_on sep token) \<noteq> 4"
  then show "spec_parseSandboxName sep token = Inl InvalidNameFormat"
    by (rule parse_wrong_count)
next
  assume "\<not> list_all is_digit (last (split_on sep token))"
  then show "spec_parseSandboxName sep token = Inl InvalidNameFormat"
    by (rule parse_bad_attempt)
next
  fix info
  assume a: "parseSandboxName h = spec_parseSandboxName sep
        \<and> fst (GetPodInfo c podSandboxID s) = Inr info"
    and b: "spec_buildSandboxName sep m = Inr (info_PodName info)"
  from a parse_build [OF b] have "parseSandboxName h (info_PodName info) =
      Inr (Name m, Namespace m, Uid m, Attempt m)"
    by simp
  with a have "pss_Metadata (projr (fst (PodSandboxStatus h c podSandboxID s))) = m"
    "\<not> isl (fst (PodSandboxStatus h c podSandboxID s))"
    by (simp_all add: PodSandboxStatus_Inr)
  then show "\<exists>st. fst (PodSandboxStatus h c podSandboxID s) = Inr st \<and> pss_Metadata st = m"
    by (cases "fst (PodSandboxStatus h c podSandboxID s)") auto
next
  fix info
  assume a: "parseSandboxName h = spec_parseSandboxName sep
        \<and> fst (GetPodInfo c podSandboxID s) = Inr info"
    and b: "isl (spec_parseSandboxName sep (info_PodName info))"
  from parse_error [OF b] a
  have "parseSandboxName h (info_PodName info) = Inl InvalidNameFormat" by simp
  with a show "fst (PodSandboxStatus h c podSandboxID s) = Inl InvalidNameFormat"
    by (simp add: PodSandboxStatus_Inl)
qed

text \<open>
  A run of the codec: a valid metadata comes back; a token of three fields, a token
  with a non-numeric attempt and a token with leading zeros in the attempt, which no
  metadata encodes to, are refused.
\<close>

theorem sandbox_name_roundtrip_witness:
  "spec_buildSandboxName CHR ''_''
     \<lparr>Name = ''web'', Uid = ''u1'', Namespace = ''default'', Attempt = 12\<rparr>
     = Inr ''web_default_u1_12''
   \<and> spec_parseSandboxName CHR ''_'' ''web_default_u1_12''
     = Inr (''web'', ''default'', ''u1'', 12)
   \<and> spec_parseSandboxName CHR ''_'' ''web_default_u1'' = Inl InvalidNameFormat
   \<and> spec_parseSandboxName CHR ''_'' ''web_default_u1_x2'' = Inl InvalidNameFormat
   \<and> spec_parseSandboxName CHR ''_'' ''name_ns_uid_007'' = Inl InvalidNameFormat"
proof -
  let ?m = "\<lparr>Name = ''web'', Uid = ''u1'', Namespace = ''default'', Attempt = 12\<rparr>"
  have sh: "show_nat 12 = ''12''" by code_simp
  then have v: "valid_metadata CHR ''_'' ?m" by (simp add: valid_metadata_def)
  have b: "spec_buildSandboxName CHR ''_'' ?m = Inr ''web_default_u1_12''"
    by (simp add: spec_buildSandboxName_def valid_metadata_def sh)
  have n: "length (split_on CHR ''_'' ''web_default_u1'') \<noteq> 4" by simp
  have a: "\<not> list_all is_digit (last (split_on CHR ''_'' ''web_default_u1_x2''))"
    by (simp add: is_digit_def)
  have z: "\<forall>m'. spec_buildSandboxName CHR ''_'' m' \<noteq> Inr ''name_ns_uid_007''"
  proof
    fix m'
    have "spec_parseSandboxName CHR ''_'' ''name_ns_uid_007'' = Inl InvalidNameFormat"
      by (simp add: spec_parseSandboxName_def parse_attempt_def is_digit_def)
    with parse_build [of "CHR ''_''" m' "''name_ns_uid_007''"]
    show "spec_buildSandboxName CHR ''_'' m' \<noteq> Inr ''name_ns_uid_007''" by auto
  qed
  note r = sandbox_name_roundtrip
  from r [THEN conjunct1, rule_format, OF v] b
    r [THEN conjunct2, THEN conjunct2, THEN conjunct1, THEN mp, OF z]
    r [THEN conjunct2, THEN conjunct2, THEN conjunct2, THEN conjunct1, rule_format, OF n]
    r [THEN conjunct2, THEN conjunct2, THEN conjunct2, THEN conjunct2, THEN conjunct1,
       rule_format, OF a]
  show ?thesis by simp
qed

subsection \<open>C2: cleanup after a failed start\<close>

text \<open>
  C2. For every configuration and every engine client: when \<open>CreatePod\<close> succeeds and
  the following \<open>StartPod\<close> fails, the engine calls made are \<open>CreatePod\<close>, \<open>StartPod\<close> and
  one \<open>RemovePod\<close> with the created pod id, and the error returned is the one of
  \<open>StartPod\<close>, whatever \<open>RemovePod\<close> answers. When \<open>CreatePod\<close> fails, its error is
  returned and \<open>CreatePod\<close> is the only engine call.
\<close>

theorem RunPodSandbox_cleanup:
  "(\<forall>userpod podID s1 e s2.
       buildUserPod h config = Inr userpod \<and> CreatePod c userpod s = (Inr podID, s1)
       \<and> StartPod c podID s1 = (Some e, s2) \<longrightarrow>
         fst (RunPodSandbox h c config s) = Inl e
         \<and> calls (fst (snd (RunPodSandbox h c config s))) =
             [Call_CreatePod userpod, Call_StartPod podID, Call_RemovePod podID]
         \<and> snd (snd (RunPodSandbox h c config s)) = snd (RemovePod c podID s2))
   \<and> (\<forall>userpod e s1.
       buildUserPod h config = Inr userpod \<and> CreatePod c userpod s = (Inl e, s1) \<longrightarrow>
         RunPodSandbox h c config s =
           (Inl e,
            [Call_CreatePod userpod,
             Errorf ''Create pod for sandbox %q failed: %v'' [S (config_String h config), E e]],
            s1))"
  by (auto simp: RunPodSandbox_def calls_def split: prod.splits option.splits sum.splits)

theorem RunPodSandbox_cleanup_witness:
  "fst (RunPodSandbox example_helpers
          (reply_Client (Inr (''0.6.0'', ''1.0'')) (Inr ''pod1'') (Some (Error ''start failed''))
             (0, [], None) (Some (Error ''remove failed'')) (Inl (Error ''none''))
             (Inl (Error ''none'')) :: (string, unit) Client)
          ''config'' ())
     = Inl (Error ''start failed'')
   \<and> calls (fst (snd (RunPodSandbox example_helpers
          (reply_Client (Inr (''0.6.0'', ''1.0'')) (Inr ''pod1'') (Some (Error ''start failed''))
             (0, [], None) (Some (Error ''remove failed'')) (Inl (Error ''none''))
             (Inl (Error ''none'')) :: (string, unit) Client)
          ''config'' ())))
     = [Call_CreatePod ''config'', Call_StartPod ''pod1'', Call_RemovePod ''pod1'']"
  using RunPodSandbox_cleanup [where h = example_helpers and config = "''config''" and s = "()"
      and c = "reply_Client (Inr (''0.6.0'', ''1.0'')) (Inr ''pod1'') (Some (Error ''start failed''))
             (0, [], None) (Some (Error ''remove failed'')) (Inl (Error ''none''))
             (Inl (Error ''none'')) :: (string, unit) Client"]
  by (simp add: example_defs)

subsection \<open>C3: one undecodable name fails the whole listing\<close>

text \<open>
  C3. When the engine's pod list holds a record whose name does not decode,
  \<open>ListPodSandbox\<close> returns an error and no list, for every filter, also one that would
  have excluded that record.
\<close>

theorem ListPodSandbox_bad_name:
  assumes "fst (GetPodList c s) = Inr pods"
    and "\<exists>pod \<in> set pods. isl (parseSandboxName h (pod_PodName pod))"
  shows "isl (fst (ListPodSandbox h c fltr s))"
proof -
  have loop: "isl (fst (ListPodSandbox_loop h fltr ps items))"
    if "\<exists>pod \<in> set ps. isl (parseSandboxName h (pod_PodName pod))" for ps items
    using that
    by (induction ps arbitrary: items) (auto simp: Let_def split: sum.splits)
  from assms show ?thesis
    using loop [of pods "[]"]
    by (cases "GetPodList c s") (auto simp: ListPodSandbox_def split: sum.splits prod.splits)
qed

theorem ListPodSandbox_bad_name_witness:
  "isl (fst (ListPodSandbox example_helpers
          (example_engine (Inl (Error ''none''))
             (Inr (example_pods @ [example_pod ''x'' ''garbage'' ''web'' ''running'' 5])))
          (Some \<lparr>filter_Id = Some ''a'', filter_State = None, filter_LabelSelector = None\<rparr>)
          ()))"
proof -
  let ?pods = "example_pods @ [example_pod ''x'' ''garbage'' ''web'' ''running'' 5]"
  let ?c = "example_engine (Inl (Error ''none'')) (Inr ?pods)"
  have g: "fst (GetPodList ?c ()) = Inr ?pods" by (simp add: example_defs)
  have b: "\<exists>pod \<in> set ?pods. isl (parseSandboxName example_helpers (pod_PodName pod))"
    by (simp add: example_defs)
  from ListPodSandbox_bad_name [OF g b] show ?thesis .
qed

subsection \<open>C4: the phase mapping is total\<close>

text \<open>
  C4. Every phase string is mapped to Ready or NotReady, a phase that is not recognised
  is mapped to NotReady, and \<open>PodSandboxStatus\<close> reports that state without failing on
  account of the phase.
\<close>

theorem phase_mapping_total:
  "(spec_toPodSandboxState table phase = PodSandBoxState_READY
      \<or> spec_toPodSandboxState table phase = PodSandBoxState_NOTREADY)
   \<and> (map_of table phase = None \<longrightarrow>
        spec_toPodSandboxState table phase = PodSandBoxState_NOTREADY)
   \<and> (\<forall>info n ns u a. toPodSandboxState h = spec_toPodSandboxState table
        \<and> fst (GetPodInfo c podSandboxID s) = Inr info
        \<and> parseSandboxName h (info_PodName info) = Inr (n, ns, u, a) \<longrightarrow>
          (\<exists>st. fst (PodSandboxStatus h c podSandboxID s) = Inr st
             \<and> pss_State st = spec_toPodSandboxState table (status_Phase (info_Status info))))"
proof (intro conjI allI impI)
  show "spec_toPodSandboxState table phase = PodSandBoxState_READY
      \<or> spec_toPodSandboxState table phase = PodSandBoxState_NOTREADY"
    by (cases "spec_toPodSandboxState table phase") simp_all
next
  assume "map_of table phase = None"
  then show "spec_toPodSandboxState table phase = PodSandBoxState_NOTREADY"
    by (simp add: spec_toPodSandboxState_def)
next
  fix info n ns u a
  assume "toPodSandboxState h = spec_toPodSandboxState table
        \<and> fst (GetPodInfo c podSandboxID s) = Inr info
        \<and> parseSandboxName h (info_PodName info) = Inr (n, ns, u, a)"
  then show "\<exists>st. fst (PodSandboxStatus h c podSandboxID s) = Inr st
             \<and> pss_State st = spec_toPodSandboxState table (status_Phase (info_Status info))"
    by (simp add: PodSandboxStatus_Inr)
qed

theorem phase_mapping_total_witness:
  "spec_toPodSandboxState [(''running'', PodSandBoxState_READY)] ''paused''
     = PodSandBoxState_NOTREADY
   \<and> pss_State (projr (fst (PodSandboxStatus example_helpers
          (example_engine (Inr (example_info 1000)) (Inl (Error ''none''))) ''pod1'' ())))
     = PodSandBoxState_READY"
proof -
  have u: "map_of [(''running'', PodSandBoxState_READY)] ''paused'' = None" by simp
  have l: "toPodSandboxState example_helpers
             = spec_toPodSandboxState [(''running'', PodSandBoxState_READY)]
        \<and> fst (GetPodInfo (example_engine (Inr (example_info 1000)) (Inl (Error ''none'')))
                 ''pod1'' ()) = Inr (example_info 1000)
        \<and> parseSandboxName example_helpers (info_PodName (example_info 1000))
            = Inr (''web'', ''default'', ''uid1'', 0)"
    by (simp add: example_defs)
  note r = phase_mapping_total
  from r [THEN conjunct2, THEN conjunct1, rule_format, OF u]
    r [THEN conjunct2, THEN conjunct2, rule_format, OF l]
  show ?thesis
    by (auto simp: example_info_def spec_toPodSandboxState_def)
qed

subsection \<open>C5: seconds to nanoseconds\<close>

text \<open>
  C5. The \<open>CreatedAt\<close> value of the status returned by \<open>PodSandboxStatus\<close> and of every
  entry returned by \<open>ListPodSandbox\<close> is the engine's timestamp times 1,000,000,000 in
  64-bit arithmetic; for a timestamp \<open>t\<close> with \<open>-9223372036 \<le> t \<le> 9223372036\<close> this is
  the integer \<open>t * 1,000,000,000\<close> exactly.
\<close>

theorem CreatedAt_nanos:
  "(\<forall>st. fst (PodSandboxStatus h c podSandboxID s) = Inr st \<longrightarrow>
      (\<exists>info. fst (GetPodInfo c podSandboxID s) = Inr info
         \<and> pss_CreatedAt st = info_CreatedAt info * 1000000000
         \<and> (fits_nanos (info_CreatedAt info) \<longrightarrow>
              sint (pss_CreatedAt st) = sint (info_CreatedAt info) * 1000000000)))
   \<and> (\<forall>result pods. fst (ListPodSandbox h c fltr s) = Inr result
        \<and> fst (GetPodList c s) = Inr pods
        \<and> (\<forall>xs. set (sortByCreatedAt h xs) = set xs) \<longrightarrow>
          (\<forall>e \<in> set result. \<exists>pod \<in> set pods. sandbox_of h pod = Some e
             \<and> ps_CreatedAt e = pod_CreatedAt pod * 1000000000
             \<and> (fits_nanos (pod_CreatedAt pod) \<longrightarrow>
                  sint (ps_CreatedAt e) = sint (pod_CreatedAt pod) * 1000000000)))"
proof (intro conjI allI impI ballI)
  fix st
  assume st: "fst (PodSandboxStatus h c podSandboxID s) = Inr st"
  from PodSandboxStatus_cases [OF st] obtain info n ns u a where
    i: "fst (GetPodInfo c podSandboxID s) = Inr info"
       "parseSandboxName h (info_PodName info) = Inr (n, ns, u, a)"
    by blast
  from PodSandboxStatus_Inr [OF i] st
  have "pss_CreatedAt st = info_CreatedAt info * secondToNano" by auto
  with i(1) show "\<exists>info. fst (GetPodInfo c podSandboxID s) = Inr info
         \<and> pss_CreatedAt st = info_CreatedAt info * 1000000000
         \<and> (fits_nanos (info_CreatedAt info) \<longrightarrow>
              sint (pss_CreatedAt st) = sint (info_CreatedAt info) * 1000000000)"
    using sint_nanos [of "info_CreatedAt info"] by (auto simp: secondToNano_def)
next
  fix result pods e
  assume a: "fst (ListPodSandbox h c fltr s) = Inr result
        \<and> fst (GetPodList c s) = Inr pods
        \<and> (\<forall>xs. set (sortByCreatedAt h xs) = set xs)"
    and e: "e \<in> set result"
  from a ListPodSandbox_Inr [of h c fltr s result] obtain items where
    items: "fst (ListPodSandbox_loop h fltr pods []) = Inr items"
      "result = sortByCreatedAt h items"
    by auto
  with a e have "e \<in> set items" by simp
  from loop_entry_pod [OF items(1) this] obtain pod where
    pod: "pod \<in> set pods" "sandbox_of h pod = Some e" by blast
  from sandbox_of_CreatedAt [OF pod(2)] sint_nanos [of "pod_CreatedAt pod"]
  have "ps_CreatedAt e = pod_CreatedAt pod * 1000000000
     \<and> (fits_nanos (pod_CreatedAt pod) \<longrightarrow>
          sint (ps_CreatedAt e) = sint (pod_CreatedAt pod) * 1000000000)"
    by (simp add: secondToNano_def)
  with pod show "\<exists>pod \<in> set pods. sandbox_of h pod = Some e
             \<and> ps_CreatedAt e = pod_CreatedAt pod * 1000000000
             \<and> (fits_nanos (pod_CreatedAt pod) \<longrightarrow>
                  sint (ps_CreatedAt e) = sint (pod_CreatedAt pod) * 1000000000)"
    by blast
qed

theorem CreatedAt_nanos_witness:
  "sint (pss_CreatedAt (projr (fst (PodSandboxStatus example_helpers
           (example_engine (Inr (example_info 1000)) (Inl (Error ''none''))) ''pod1'' ()))))
     = 1000000000000
   \<and> pss_State (projr (fst (PodSandboxStatus example_helpers
           (example_engine (Inr (example_info 1000)) (Inl (Error ''none''))) ''pod1'' ())))
     = PodSandBoxState_READY
   \<and> Ip (pss_Network (projr (fst (PodSandboxStatus example_helpers
           (example_engine (Inr (example_info 1000)) (Inl (Error ''none''))) ''pod1'' ()))))
     = ''10.0.0.5''"
proof -
  let ?c = "example_engine (Inr (example_info 1000)) (Inl (Error ''none''))"
  obtain st where st: "fst (PodSandboxStatus example_helpers ?c ''pod1'' ()) = Inr st"
    by (simp add: example_status)
  have f: "fits_nanos 1000" by (simp add: fits_nanos_def)
  from CreatedAt_nanos [THEN conjunct1, rule_format, OF st] f
  have "sint (pss_CreatedAt st) = 1000000000000"
    by (auto simp: example_defs)
  with st show ?thesis by (auto simp: example_status)
qed

text \<open>
  Beyond that range the product wraps around: the timestamp 9223372037 is reported as a
  negative number of nanoseconds.
\<close>

theorem CreatedAt_nanos_counterexample:
  "fst (GetPodInfo (example_engine (Inr (example_info 9223372037)) (Inl (Error ''none'')))
          ''pod1'' ())
     = Inr (example_info 9223372037)
   \<and> sint (info_CreatedAt (example_info 9223372037)) = 9223372037
   \<and> \<not> isl (fst (PodSandboxStatus example_helpers
           (example_engine (Inr (example_info 9223372037)) (Inl (Error ''none''))) ''pod1'' ()))
   \<and> sint (pss_CreatedAt (projr (fst (PodSandboxStatus example_helpers
           (example_engine (Inr (example_info 9223372037)) (Inl (Error ''none''))) ''pod1'' ()))))
     = - 9223372036709551616"
  by (simp add: example_status secondToNano_def) (simp add: example_defs)

subsection \<open>C6: the listing filter\<close>

text \<open>
  C6. When the pod list is fetched and every name decodes, the entries returned by
  \<open>ListPodSandbox\<close> are the translations of exactly those records for which every
  clause present in the filter holds: the id clause, the state clause on the state
  mapped from the record's phase, and the label selector, every pair of which must be
  in the record's labels. An absent clause or an absent filter imposes no constraint.
\<close>

theorem ListPodSandbox_filter:
  assumes gp: "fst (GetPodList c s) = Inr pods"
    and ok: "\<forall>pod \<in> set pods. \<not> isl (parseSandboxName h (pod_PodName pod))"
    and im: "inMap h = spec_inMap"
    and perm: "\<forall>xs. set (sortByCreatedAt h xs) = set xs"
  shows "\<exists>items. fst (ListPodSandbox h c fltr s) = Inr (sortByCreatedAt h items)
           \<and> map Some items = map (sandbox_of h) (filter (matches h fltr) pods)
           \<and> (\<forall>pod \<in> set pods.
                (sandbox_of h pod \<in> Some ` set (sortByCreatedAt h items)) = matches h fltr pod)"
proof -
  from loop_items [OF ok, of fltr "[]"] obtain items where
    items: "ListPodSandbox_loop h fltr pods [] = (Inr items, [])"
      "map Some items =
         map (sandbox_of h)
           (filter (\<lambda>p. \<not> skipped h fltr p (toPodSandboxState h (pod_Status p))) pods)"
    by auto
  have m: "map Some items = map (sandbox_of h) (filter (matches h fltr) pods)"
    using items(2) by (simp add: skipped_matches [OF im])
  have r: "fst (ListPodSandbox h c fltr s) = Inr (sortByCreatedAt h items)"
    using ListPodSandbox_ok [OF gp, of h fltr items] items(1) by simp
  have "(sandbox_of h pod \<in> Some ` set (sortByCreatedAt h items)) = matches h fltr pod"
    if pod: "pod \<in> set pods" for pod
  proof -
    from ok pod obtain e where e: "sandbox_of h pod = Some e"
      by (cases "parseSandboxName h (pod_PodName pod)")
         (auto simp: sandbox_of_def split: prod.splits)
    have s: "Some ` set (sortByCreatedAt h items) = set (map Some items)"
      using perm by simp
    show ?thesis
    proof
      assume "sandbox_of h pod \<in> Some ` set (sortByCreatedAt h items)"
      then have "Some e \<in> set (map (sandbox_of h) (filter (matches h fltr) pods))"
        unfolding s m e .
      then obtain q where q: "matches h fltr q" "sandbox_of h q = Some e" by auto
      with sandbox_of_matches [OF e q(2), of fltr] show "matches h fltr pod" by simp
    next
      assume "matches h fltr pod"
      with pod have "sandbox_of h pod \<in> set (map (sandbox_of h) (filter (matches h fltr) pods))"
        by simp
      then show "sandbox_of h pod \<in> Some ` set (sortByCreatedAt h items)"
        unfolding s m .
    qed
  qed
  with m r show ?thesis by blast
qed

theorem ListPodSandbox_filter_witness:
  "map ps_Id (projr (fst (ListPodSandbox example_helpers
        (example_engine (Inl (Error ''none'')) (Inr example_pods))
        (Some \<lparr>filter_Id = None, filter_State = Some PodSandBoxState_READY,
               filter_LabelSelector = Some [''app'' \<mapsto> ''web'']\<rparr>) ())))
     = [''d'', ''a'']"
proof -
  let ?f = "Some \<lparr>filter_Id = None, filter_State = Some PodSandBoxState_READY,
               filter_LabelSelector = Some [''app'' \<mapsto> ''web'']\<rparr>"
  have m: "filter (matches example_helpers ?f) example_pods =
             [example_pod ''a'' ''web_default_u1_0'' ''web'' ''running'' 30,
              example_pod ''d'' ''job_default_u4_0'' ''web'' ''running'' 10]"
    by (simp add: matches_def example_defs spec_toPodSandboxState_def)
  from ListPodSandbox_filter [OF example_list(1,2,3,5), of ?f] obtain items where
    r: "fst (ListPodSandbox example_helpers
          (example_engine (Inl (Error ''none'')) (Inr example_pods)) ?f ())
        = Inr (sortByCreatedAt example_helpers items)"
    and i: "map Some items = map (sandbox_of example_helpers)
              (filter (matches example_helpers ?f) example_pods)"
    by blast
  from i have "map Some items =
      [Some \<lparr>ps_Id = ''a'',
          ps_Metadata = \<lparr>Name = ''web'', Uid = ''u1'', Namespace = ''default'', Attempt = 0\<rparr>,
          ps_Labels = [''app'' \<mapsto> ''web''], ps_State = PodSandBoxState_READY,
          ps_CreatedAt = 30000000000\<rparr>,
       Some \<lparr>ps_Id = ''d'',
          ps_Metadata = \<lparr>Name = ''job'', Uid = ''u4'', Namespace = ''default'', Attempt = 0\<rparr>,
          ps_Labels = [''app'' \<mapsto> ''web''], ps_State = PodSandBoxState_READY,
          ps_CreatedAt = 10000000000\<rparr>]"
    unfolding m
    by (simp add: sandbox_of_def example_defs spec_toPodSandboxState_def secondToNano_def)
  then have "items =
      [\<lparr>ps_Id = ''a'',
          ps_Metadata = \<lparr>Name = ''web'', Uid = ''u1'', Namespace = ''default'', Attempt = 0\<rparr>,
          ps_Labels = [''app'' \<mapsto> ''web''], ps_State = PodSandBoxState_READY,
          ps_CreatedAt = 30000000000\<rparr>,
       \<lparr>ps_Id = ''d'',
          ps_Metadata = \<lparr>Name = ''job'', Uid = ''u4'', Namespace = ''default'', Attempt = 0\<rparr>,
          ps_Labels = [''app'' \<mapsto> ''web''], ps_State = PodSandBoxState_READY,
          ps_CreatedAt = 10000000000\<rparr>]"
    by (auto simp: map_eq_Cons_conv)
  with r show ?thesis
    by (simp add: example_list(4) spec_sortByCreatedAt_def created_key_def)
qed

subsection \<open>C7: a failed stop\<close>

text \<open>
  C7. When the engine's \<open>StopPod\<close> fails, \<open>StopPodSandbox\<close> returns the engine's error
  unchanged; the code and cause reported by the engine go to the error log together
  with the error, and \<open>StopPod\<close> is called once, with no retry.
\<close>

theorem StopPodSandbox_failure:
  assumes "StopPod c podSandboxID s = ((code, cause, Some err), s1)"
  shows "StopPodSandbox c podSandboxID s =
           (Some err,
            [Call_StopPod podSandboxID,
             Errorf ''Stop pod %s failed, code: %d, cause: %s, error: %v''
               [S podSandboxID, I code, S cause, E err]],
            s1)"
  using assms by (simp add: StopPodSandbox_def)

theorem StopPodSandbox_failure_witness:
  "StopPodSandbox
     (reply_Client (Inr (''0.6.0'', ''1.0'')) (Inr ''pod1'') None
        (137, ''killed'', Some (Error ''timeout'')) None (Inl (Error ''none''))
        (Inl (Error ''none'')) :: (string, unit) Client)
     ''pod1'' ()
   = (Some (Error ''timeout''),
      [Call_StopPod ''pod1'',
       Errorf ''Stop pod %s failed, code: %d, cause: %s, error: %v''
         [S ''pod1'', I 137, S ''killed'', E (Error ''timeout'')]],
      ())"
proof -
  have "StopPod (reply_Client (Inr (''0.6.0'', ''1.0'')) (Inr ''pod1'') None
        (137, ''killed'', Some (Error ''timeout'')) None (Inl (Error ''none''))
        (Inl (Error ''none'')) :: (string, unit) Client) ''pod1'' ()
      = ((137, ''killed'', Some (Error ''timeout'')), ())"
    by (simp add: reply_Client_def)
  from StopPodSandbox_failure [OF this] show ?thesis .
qed

text \<open>
  The returned error does not carry the code and cause: two engines reporting different
  codes and causes with the same error give the caller the same value.
\<close>

theorem StopPodSandbox_counterexample:
  "fst (StopPodSandbox
          (reply_Client (Inr (''0.6.0'', ''1.0'')) (Inr ''pod1'') None
             (137, ''killed'', Some (Error ''timeout'')) None (Inl (Error ''none''))
             (Inl (Error ''none'')) :: (string, unit) Client)
          ''pod1'' ())
     = Some (Error ''timeout'')
   \<and> fst (StopPodSandbox
          (reply_Client (Inr (''0.6.0'', ''1.0'')) (Inr ''pod1'') None
             (1, ''out of memory'', Some (Error ''timeout'')) None (Inl (Error ''none''))
             (Inl (Error ''none'')) :: (string, unit) Client)
          ''pod1'' ())
     = Some (Error ''timeout'')"
  by (simp add: StopPodSandbox_def reply_Client_def)

subsection \<open>C8: labels and annotations\<close>

text \<open>
  The two operations treat the engine's label map differently, whatever the helpers
  are: \<open>PodSandboxStatus\<close> passes it through \<open>getKubeletLabels\<close> and
  \<open>getAnnotationsFromLabels\<close>, while every entry of \<open>ListPodSandbox\<close> carries it as the
  engine gave it.
\<close>

lemma PodSandboxStatus_labels:
  assumes "fst (PodSandboxStatus h c podSandboxID s) = Inr st"
  shows "\<exists>info. fst (GetPodInfo c podSandboxID s) = Inr info
           \<and> pss_Labels st = getKubeletLabels h (spec_Labels (info_Spec info))
           \<and> pss_Annotations st = getAnnotationsFromLabels h (spec_Labels (info_Spec info))"
proof -
  from PodSandboxStatus_cases [OF assms] obtain info n ns u a where
    i: "fst (GetPodInfo c podSandboxID s) = Inr info"
       "parseSandboxName h (info_PodName info) = Inr (n, ns, u, a)"
    by blast
  from PodSandboxStatus_Inr [OF i] assms i(1) show ?thesis by auto
qed

lemma ListPodSandbox_labels:
  assumes "fst (ListPodSandbox h c fltr s) = Inr result"
    and "fst (GetPodList c s) = Inr pods"
    and "\<forall>xs. set (sortByCreatedAt h xs) = set xs"
    and "e \<in> set result"
  shows "\<exists>pod \<in> set pods. ps_Id e = pod_PodID pod \<and> ps_Labels e = pod_Labels pod"
proof -
  from assms(1,2) ListPodSandbox_Inr [of h c fltr s result] obtain items where
    items: "fst (ListPodSandbox_loop h fltr pods []) = Inr items"
      "result = sortByCreatedAt h items"
    by auto
  with assms(3,4) have "e \<in> set items" by simp
  from loop_entry_pod [OF items(1) this] obtain pod where
    pod: "pod \<in> set pods" "sandbox_of h pod = Some e" by blast
  from pod(2) have "ps_Id e = pod_PodID pod \<and> ps_Labels e = pod_Labels pod"
    by (auto simp: sandbox_of_def split: sum.splits)
  with pod(1) show ?thesis by blast
qed

text \<open>
  C8. The labels and annotations of a returned sandbox should partition the engine's
  metadata map, a key carrying the annotation marker appearing only among the
  annotations, in \<open>PodSandboxStatus\<close> results and in \<open>ListPodSandbox\<close> entries alike. The
  list entries do not: for an engine record with the labels \<open>app\<close> and \<open>a.note\<close>, where
  \<open>a.\<close> is the marker, the list entry still has \<open>a.note\<close> among its labels, whereas the
  status of a pod with the same labels has it among the annotations only, as \<open>note\<close>.
\<close>

theorem ListPodSandbox_labels_unsplit:
  "map (\<lambda>e. ps_Labels e ''a.note'') (projr (fst (ListPodSandbox example_helpers
        (example_engine (Inl (Error ''none''))
           (Inr [\<lparr>pod_PodID = ''a'', pod_PodName = ''web_default_u1_0'',
                  pod_Labels = [''app'' \<mapsto> ''web'', ''a.note'' \<mapsto> ''hi''],
                  pod_Status = ''running'', pod_CreatedAt = 30\<rparr>])) None ())))
     = [Some ''hi'']
   \<and> pss_Labels (projr (fst (PodSandboxStatus example_helpers
        (example_engine (Inr (example_info 1000)) (Inl (Error ''none''))) ''pod1'' ())))
        ''a.note''
     = None
   \<and> pss_Annotations (projr (fst (PodSandboxStatus example_helpers
        (example_engine (Inr (example_info 1000)) (Inl (Error ''none''))) ''pod1'' ())))
        ''note''
     = Some ''hi''"
  by (simp add: example_status)
     (simp add: ListPodSandbox_def skipped_def example_defs spec_sortByCreatedAt_def
        spec_getKubeletLabels_def spec_getAnnotationsFromLabels_def has_marker_def)

subsection \<open>C9: the order of a listing\<close>

text \<open>
  C9. The list returned by \<open>ListPodSandbox\<close> is in ascending order of creation
  timestamp, holds the same entries as the loop built, and keeps entries with equal
  timestamps in the order of the engine's pod list.
\<close>

theorem ListPodSandbox_sorted:
  assumes "sortByCreatedAt h = spec_sortByCreatedAt"
    and "fst (ListPodSandbox h c fltr s) = Inr result"
  shows "sorted (map created_key result)
     \<and> (\<exists>pods items. fst (GetPodList c s) = Inr pods
          \<and> fst (ListPodSandbox_loop h fltr pods []) = Inr items
          \<and> mset result = mset items
          \<and> (\<forall>t. filter (\<lambda>e. created_key e = t) result = filter (\<lambda>e. created_key e = t) items))"
proof -
  from ListPodSandbox_Inr [OF assms(2)] assms(1) obtain pods items where
    i: "fst (GetPodList c s) = Inr pods"
       "fst (ListPodSandbox_loop h fltr pods []) = Inr items"
       "result = sort_key created_key items"
    by (auto simp: spec_sortByCreatedAt_def)
  have "sorted (map created_key result)" by (simp add: i(3))
  moreover have "mset result = mset items" by (simp add: i(3))
  moreover have "filter (\<lambda>e. created_key e = t) result = filter (\<lambda>e. created_key e = t) items"
    for t by (simp add: i(3) sort_key_stable)
  ultimately show ?thesis using i(1,2) by blast
qed

theorem ListPodSandbox_sorted_witness:
  "map ps_Id (projr (fst (ListPodSandbox example_helpers
        (example_engine (Inl (Error ''none'')) (Inr example_pods)) None ())))
     = [''b'', ''d'', ''c'', ''a'']
   \<and> sorted (map created_key (projr (fst (ListPodSandbox example_helpers
        (example_engine (Inl (Error ''none'')) (Inr example_pods)) None ()))))"
proof -
  let ?c = "example_engine (Inl (Error ''none'')) (Inr example_pods)"
  have e: "map ps_Id (projr (fst (ListPodSandbox example_helpers ?c None ())))
             = [''b'', ''d'', ''c'', ''a'']"
    "\<not> isl (fst (ListPodSandbox example_helpers ?c None ()))"
    by (simp_all add: ListPodSandbox_def skipped_def example_defs spec_sortByCreatedAt_def
          created_key_def secondToNano_def)
  then obtain result where r: "fst (ListPodSandbox example_helpers ?c None ()) = Inr result"
    by (cases "fst (ListPodSandbox example_helpers ?c None ())") auto
  from ListPodSandbox_sorted [OF example_list(4) r] e(1) r show ?thesis by simp
qed

subsection \<open>C10: the runtime status\<close>

text \<open>
  C10. \<open>Status\<close> never fails: whatever the version query answers, it returns a status
  with exactly two conditions, \<open>RuntimeReady\<close> and \<open>NetworkReady\<close>. \<open>NetworkReady\<close> is
  always true; \<open>RuntimeReady\<close> is true iff the version query succeeded, and carries the
  reason \<open>HyperDaemonNotReady\<close> when it failed.
\<close>

theorem Status_conditions:
  "\<exists>rt nw. fst (Status c s) = Inr \<lparr>Conditions = [rt, nw]\<rparr>
     \<and> cond_Type rt = RuntimeReady \<and> cond_Type nw = NetworkReady
     \<and> cond_Status nw
     \<and> cond_Status rt = (\<not> isl (fst (GetVersion c s)))
     \<and> cond_Reason rt = (if isl (fst (GetVersion c s)) then Some ''HyperDaemonNotReady'' else None)
     \<and> fst (snd (Status c s)) = [Call_GetVersion]"
  by (cases "GetVersion c s"; cases "fst (GetVersion c s)"; cases "projl (fst (GetVersion c s))")
     (auto simp: Status_def Let_def)

theorem Status_conditions_witness:
  "fst (Status (reply_Client (Inl (Error ''down'')) (Inl (Error ''x'')) None (0, [], None) None
          (Inl (Error ''x'')) (Inl (Error ''x''))) ())
     = Inr \<lparr>Conditions =
         [\<lparr>cond_Type = ''RuntimeReady'', cond_Status = False,
           cond_Reason = Some ''HyperDaemonNotReady'',
           cond_Message = Some ''hyper: failed to get hyper version: down''\<rparr>,
          \<lparr>cond_Type = ''NetworkReady'', cond_Status = True,
           cond_Reason = None, cond_Message = None\<rparr>]\<rparr>"
  using Status_conditions [of "reply_Client (Inl (Error ''down'')) (Inl (Error ''x'')) None (0, [], None) None
          (Inl (Error ''x'')) (Inl (Error ''x''))" "()"]
  by (simp add: Status_def reply_Client_def RuntimeReady_def NetworkReady_def)

end
